theory Spec2Isabelle
  imports Complex_Main
begin

section \<open>JavaScript numbers and component values\<close>

text \<open>
  A JavaScript number is modelled as an exact real together with the three special values
  \<open>Infinity\<close>, \<open>-Infinity\<close> and \<open>NaN\<close>. Rounding, overflow of finite results and the
  sign of zero are not modelled; what a division by zero and an operation on a special value
  return is.
\<close>

datatype number = Fin real | PInf | NInf | NaN

fun js_neg :: "number \<Rightarrow> number" where
  "js_neg (Fin a) = Fin (- a)"
| "js_neg PInf = NInf"
| "js_neg NInf = PInf"
| "js_neg NaN = NaN"

fun js_add :: "number \<Rightarrow> number \<Rightarrow> number" where
  "js_add NaN _ = NaN"
| "js_add _ NaN = NaN"
| "js_add (Fin a) (Fin b) = Fin (a + b)"
| "js_add PInf NInf = NaN"
| "js_add NInf PInf = NaN"
| "js_add PInf _ = PInf"
| "js_add NInf _ = NInf"
| "js_add (Fin a) b = b"

definition js_sub :: "number \<Rightarrow> number \<Rightarrow> number" where
  "js_sub a b = js_add a (js_neg b)"

fun js_mul :: "number \<Rightarrow> number \<Rightarrow> number" where
  "js_mul NaN _ = NaN"
| "js_mul _ NaN = NaN"
| "js_mul (Fin a) (Fin b) = Fin (a * b)"
| "js_mul (Fin a) PInf = (if a = 0 then NaN else if 0 < a then PInf else NInf)"
| "js_mul (Fin a) NInf = (if a = 0 then NaN else if 0 < a then NInf else PInf)"
| "js_mul PInf (Fin b) = (if b = 0 then NaN else if 0 < b then PInf else NInf)"
| "js_mul NInf (Fin b) = (if b = 0 then NaN else if 0 < b then NInf else PInf)"
| "js_mul PInf PInf = PInf"
| "js_mul PInf NInf = NInf"
| "js_mul NInf PInf = NInf"
| "js_mul NInf NInf = PInf"

fun js_div :: "number \<Rightarrow> number \<Rightarrow> number" where
  "js_div NaN _ = NaN"
| "js_div _ NaN = NaN"
| "js_div (Fin a) (Fin b) =
     (if b = 0 then (if a = 0 then NaN else if 0 < a then PInf else NInf)
      else Fin (a / b))"
| "js_div (Fin a) _ = Fin 0"
| "js_div PInf (Fin b) = (if 0 \<le> b then PInf else NInf)"
| "js_div NInf (Fin b) = (if 0 \<le> b then NInf else PInf)"
| "js_div _ _ = NaN"

text \<open>\<open>Math.max\<close> and \<open>Math.min\<close> of two arguments, \<open>Math.abs\<close>, \<open>Math.sqrt\<close>,
  \<open>Math.exp\<close> and \<open>Math.pow(x, 2)\<close>.\<close>

fun Math_max :: "number \<Rightarrow> number \<Rightarrow> number" where
  "Math_max NaN _ = NaN"
| "Math_max _ NaN = NaN"
| "Math_max (Fin a) (Fin b) = Fin (max a b)"
| "Math_max PInf _ = PInf"
| "Math_max _ PInf = PInf"
| "Math_max NInf b = b"
| "Math_max a NInf = a"

fun Math_min :: "number \<Rightarrow> number \<Rightarrow> number" where
  "Math_min NaN _ = NaN"
| "Math_min _ NaN = NaN"
| "Math_min (Fin a) (Fin b) = Fin (min a b)"
| "Math_min NInf _ = NInf"
| "Math_min _ NInf = NInf"
| "Math_min PInf b = b"
| "Math_min a PInf = a"

fun Math_abs :: "number \<Rightarrow> number" where
  "Math_abs (Fin a) = Fin \<bar>a\<bar>"
| "Math_abs PInf = PInf"
| "Math_abs NInf = PInf"
| "Math_abs NaN = NaN"

fun Math_sqrt :: "number \<Rightarrow> number" where
  "Math_sqrt (Fin a) = (if a < 0 then NaN else Fin (sqrt a))"
| "Math_sqrt PInf = PInf"
| "Math_sqrt NInf = NaN"
| "Math_sqrt NaN = NaN"

fun Math_exp :: "number \<Rightarrow> number" where
  "Math_exp (Fin a) = Fin (exp a)"
| "Math_exp PInf = PInf"
| "Math_exp NInf = Fin 0"
| "Math_exp NaN = NaN"

fun Math_pow2 :: "number \<Rightarrow> number" where
  "Math_pow2 (Fin a) = Fin (a ^ 2)"
| "Math_pow2 PInf = PInf"
| "Math_pow2 NInf = PInf"
| "Math_pow2 NaN = NaN"

text \<open>The comparison \<open>a <= b\<close> of two numbers: false as soon as one of them is \<open>NaN\<close>.\<close>

fun js_le :: "number \<Rightarrow> number \<Rightarrow> bool" where
  "js_le NaN _ = False"
| "js_le _ NaN = False"
| "js_le (Fin a) (Fin b) = (a \<le> b)"
| "js_le NInf _ = True"
| "js_le _ PInf = True"
| "js_le _ _ = False"

text \<open>
  What a component slot of a value holds: a number, or \<open>undefined\<close> when a constructor was
  called with too few arguments or an array was read past its end.
\<close>

datatype jsval = Undefined | Num number

fun to_number :: "jsval \<Rightarrow> number" where
  "to_number Undefined = NaN"
| "to_number (Num n) = n"

definition op_add :: "jsval \<Rightarrow> jsval \<Rightarrow> jsval" where
  "op_add a b = Num (js_add (to_number a) (to_number b))"

definition op_sub :: "jsval \<Rightarrow> jsval \<Rightarrow> jsval" where
  "op_sub a b = Num (js_sub (to_number a) (to_number b))"

definition op_mul :: "jsval \<Rightarrow> jsval \<Rightarrow> jsval" where
  "op_mul a b = Num (js_mul (to_number a) (to_number b))"

definition op_div :: "jsval \<Rightarrow> jsval \<Rightarrow> jsval" where
  "op_div a b = Num (js_div (to_number a) (to_number b))"

text \<open>Array read \<open>xs[i]\<close>: \<open>undefined\<close> past the end.\<close>

definition array_get :: "jsval list \<Rightarrow> nat \<Rightarrow> jsval" where
  "array_get xs i = (if i < length xs then xs ! i else Undefined)"

section \<open>Errors\<close>

text \<open>A thrown \<open>Error\<close> with its message; \<open>RangeError\<close> is the error kind the
  specification names for \<open>remap\<close>.\<close>

datatype error = Error string | RangeError

definition bindE :: "'e + 'a \<Rightarrow> ('a \<Rightarrow> 'e + 'b) \<Rightarrow> 'e + 'b" where
  "bindE m f = (case m of Inl e \<Rightarrow> Inl e | Inr x \<Rightarrow> f x)"

text \<open>A binary operator applied to two operands that are evaluated left to right, each
  of which may throw.\<close>

definition lift2 ::
  "(jsval \<Rightarrow> jsval \<Rightarrow> jsval) \<Rightarrow> error + jsval \<Rightarrow> error + jsval \<Rightarrow> error + jsval" where
  "lift2 f a b = bindE a (\<lambda>x. bindE b (\<lambda>y. Inr (f x y)))"

text \<open>Running a loop body for each index in turn and collecting the results; the first
  throw ends the loop.\<close>

fun mapE :: "('a \<Rightarrow> 'e + 'b) \<Rightarrow> 'a list \<Rightarrow> 'e + 'b list" where
  "mapE f [] = Inr []"
| "mapE f (x # xs) = bindE (f x) (\<lambda>y. bindE (mapE f xs) (\<lambda>ys. Inr (y # ys)))"

section \<open>Renderable values (public/types/HLSL.ts)\<close>

fun digit_string :: "nat \<Rightarrow> string" where
  "digit_string n =
     (if n < 10 then [''0123456789'' ! n]
      else digit_string (n div 10) @ [''0123456789'' ! (n mod 10)])"

definition defaultValueFor :: "nat \<Rightarrow> error + number" where
  "defaultValueFor index =
     (if index = 0 \<or> index = 1 \<or> index = 2 then Inr (Fin 0)
      else if index = 3 then Inr (Fin 1)
      else Inl (Error (''Invalid dimension index '' @ [CHR 0x22] @ digit_string index
                         @ [CHR 0x22])))"

text \<open>The three classes. Each stores exactly as many components as its dimension.\<close>

datatype renderable =
    Scalar jsval
  | Vector2 jsval jsval
  | Vector3 jsval jsval jsval

datatype ctor = CScalar | CVector2 | CVector3

fun constructor_of :: "renderable \<Rightarrow> ctor" where
  "constructor_of (Scalar _) = CScalar"
| "constructor_of (Vector2 _ _) = CVector2"
| "constructor_of (Vector3 _ _ _) = CVector3"

text \<open>\<open>new Type(...values)\<close>: missing arguments are \<open>undefined\<close>, surplus ones are
  dropped.\<close>

fun construct :: "ctor \<Rightarrow> jsval list \<Rightarrow> renderable" where
  "construct CScalar vs = Scalar (array_get vs 0)"
| "construct CVector2 vs = Vector2 (array_get vs 0) (array_get vs 1)"
| "construct CVector3 vs = Vector3 (array_get vs 0) (array_get vs 1) (array_get vs 2)"

fun "values" :: "renderable \<Rightarrow> jsval list" where
  "values (Scalar s) = [s]"
| "values (Vector2 r g) = [r, g]"
| "values (Vector3 r g b) = [r, g, b]"

fun dimensions :: "renderable \<Rightarrow> nat" where
  "dimensions (Scalar _) = 1"
| "dimensions (Vector2 _ _) = 2"
| "dimensions (Vector3 _ _ _) = 3"

text \<open>The channel getters of the three classes.\<close>

fun red :: "renderable \<Rightarrow> error + jsval" where
  "red (Scalar s) = Inr (array_get (values (Scalar s)) 0)"
| "red (Vector2 r g) = Inr (array_get (values (Vector2 r g)) 0)"
| "red (Vector3 r g b) = Inr (array_get (values (Vector3 r g b)) 0)"

fun green :: "renderable \<Rightarrow> error + jsval" where
  "green (Scalar s) = Inr (array_get (values (Scalar s)) 0)"
| "green (Vector2 r g) = Inr (array_get (values (Vector2 r g)) 1)"
| "green (Vector3 r g b) = Inr (array_get (values (Vector3 r g b)) 1)"

fun blue :: "renderable \<Rightarrow> error + jsval" where
  "blue (Scalar s) = Inr (array_get (values (Scalar s)) 0)"
| "blue (Vector2 r g) = bindE (defaultValueFor 2) (\<lambda>d. Inr (Num d))"
| "blue (Vector3 r g b) = Inr (array_get (values (Vector3 r g b)) 2)"

fun alpha :: "renderable \<Rightarrow> error + jsval" where
  "alpha v = bindE (defaultValueFor 3) (\<lambda>d. Inr (Num d))"

subsection \<open>Scalar arithmetic\<close>

text \<open>Each method builds an array of \<open>other.dimensions\<close> entries and hands it to the
  constructor of \<open>other\<close>.\<close>

definition Scalar_multiply :: "renderable \<Rightarrow> renderable \<Rightarrow> renderable" where
  "Scalar_multiply this other =
     construct (constructor_of other)
       (map (\<lambda>i. op_mul (array_get (values this) 0) (array_get (values other) i)) [0..<dimensions other])"

definition Scalar_add :: "renderable \<Rightarrow> renderable \<Rightarrow> renderable" where
  "Scalar_add this other =
     construct (constructor_of other)
       (map (\<lambda>i. op_add (array_get (values this) 0) (array_get (values other) i)) [0..<dimensions other])"

definition Scalar_subtract :: "renderable \<Rightarrow> renderable \<Rightarrow> renderable" where
  "Scalar_subtract this other =
     construct (constructor_of other)
       (map (\<lambda>i. op_sub (array_get (values this) 0) (array_get (values other) i)) [0..<dimensions other])"

definition Scalar_divide :: "renderable \<Rightarrow> renderable \<Rightarrow> renderable" where
  "Scalar_divide this other =
     construct (constructor_of other)
       (map (\<lambda>i. if array_get (values other) i = Num (Fin 0) then Num (Fin 0)
                 else op_div (array_get (values this) 0) (array_get (values other) i))
            [0..<dimensions other])"

definition Scalar_distance :: "renderable \<Rightarrow> renderable \<Rightarrow> renderable" where
  "Scalar_distance this other =
     Scalar (Num (Math_abs (to_number (op_sub (array_get (values this) 0) (array_get (values other) 0)))))"

subsection \<open>Vector2 and Vector3 arithmetic\<close>

definition new_Vector2 :: "error + jsval \<Rightarrow> error + jsval \<Rightarrow> error + renderable" where
  "new_Vector2 r g = bindE r (\<lambda>x. bindE g (\<lambda>y. Inr (Vector2 x y)))"

definition new_Vector3 ::
  "error + jsval \<Rightarrow> error + jsval \<Rightarrow> error + jsval \<Rightarrow> error + renderable" where
  "new_Vector3 r g b = bindE r (\<lambda>x. bindE g (\<lambda>y. bindE b (\<lambda>z. Inr (Vector3 x y z))))"

definition Vector2_divide :: "renderable \<Rightarrow> renderable \<Rightarrow> error + renderable" where
  "Vector2_divide this other =
     (if dimensions other = 1 \<or> dimensions other = 2
      then new_Vector2 (lift2 op_div (red this) (red other))
                       (lift2 op_div (green this) (green other))
      else Inl (Error ''Invalid arguments for Vector2.divide''))"

definition Vector3_divide :: "renderable \<Rightarrow> renderable \<Rightarrow> error + renderable" where
  "Vector3_divide this other =
     (if dimensions other = 1 \<or> dimensions other = 3
      then new_Vector3 (lift2 op_div (red this) (red other))
                       (lift2 op_div (green this) (green other))
                       (lift2 op_div (blue this) (blue other))
      else Inl (Error ''Invalid arguments for Vector3.divide''))"

definition Vector3_subtract :: "renderable \<Rightarrow> renderable \<Rightarrow> error + renderable" where
  "Vector3_subtract this other =
     (if dimensions other = 1 \<or> dimensions other = 3
      then new_Vector3 (lift2 op_sub (red this) (red other))
                       (lift2 op_sub (green this) (green other))
                       (lift2 op_sub (blue this) (blue other))
      else Inl (Error ''Invalid arguments for Vector3.subtract''))"

text \<open>The call \<open>this.divide(other)\<close>, dispatched on the class of \<open>this\<close>.\<close>

fun divide :: "renderable \<Rightarrow> renderable \<Rightarrow> error + renderable" where
  "divide (Scalar s) other = Inr (Scalar_divide (Scalar s) other)"
| "divide (Vector2 r g) other = Vector2_divide (Vector2 r g) other"
| "divide (Vector3 r g b) other = Vector3_divide (Vector3 r g b) other"

subsection \<open>Distances and lengths\<close>

definition Vector2_distance :: "renderable \<Rightarrow> renderable \<Rightarrow> error + renderable" where
  "Vector2_distance this other =
     bindE (lift2 op_sub (red this) (red other)) (\<lambda>dr.
     bindE (lift2 op_sub (green this) (green other)) (\<lambda>dg.
       Inr (Scalar (Num (Math_sqrt
              (js_add (Math_pow2 (to_number dr)) (Math_pow2 (to_number dg))))))))"

definition Vector3_lengthSquared :: "renderable \<Rightarrow> error + renderable" where
  "Vector3_lengthSquared this =
     bindE (lift2 op_add
              (lift2 op_add (lift2 op_mul (red this) (red this))
                            (lift2 op_mul (green this) (green this)))
              (lift2 op_mul (blue this) (blue this)))
       (\<lambda>s. Inr (Scalar s))"

definition Vector3_length :: "renderable \<Rightarrow> error + renderable" where
  "Vector3_length this =
     bindE (Vector3_lengthSquared this) (\<lambda>l.
     bindE (red l) (\<lambda>r. Inr (Scalar (Num (Math_sqrt (to_number r))))))"

definition Vector3_distance :: "renderable \<Rightarrow> renderable \<Rightarrow> error + renderable" where
  "Vector3_distance this other = bindE (Vector3_subtract this other) Vector3_length"

text \<open>The call \<open>this.distance(other)\<close>, dispatched on the class of \<open>this\<close>.\<close>

fun distance :: "renderable \<Rightarrow> renderable \<Rightarrow> error + renderable" where
  "distance (Scalar s) other = Inr (Scalar_distance (Scalar s) other)"
| "distance (Vector2 r g) other = Vector2_distance (Vector2 r g) other"
| "distance (Vector3 r g b) other = Vector3_distance (Vector3 r g b) other"

section \<open>Generic blend operations\<close>

text \<open>An argument of a blend operation: a plain number or a renderable object.\<close>

datatype js_arg = ANumber number | ARenderable renderable

text \<open>\<open>v ?? defaultValueFor(i)\<close>: the default is computed only when \<open>v\<close> is
  \<open>undefined\<close>.\<close>

definition or_default :: "jsval \<Rightarrow> nat \<Rightarrow> error + jsval" where
  "or_default v i =
     (case v of Undefined \<Rightarrow> bindE (defaultValueFor i) (\<lambda>d. Inr (Num d))
              | Num n \<Rightarrow> Inr (Num n))"

text \<open>
  \<open>Math.lerp\<close> called on two component values, as the component loop does: the numeric
  branch when both are numbers, the final \<open>throw\<close> otherwise (an \<open>undefined\<close> is neither
  a number nor an object).
\<close>

fun lerp_component :: "jsval \<Rightarrow> jsval \<Rightarrow> number \<Rightarrow> error + number" where
  "lerp_component (Num a) (Num b) t = Inr (js_add a (js_mul (js_sub b a) t))"
| "lerp_component _ _ t = Inl (Error ''Invalid arguments for Math.lerp'')"

fun Math_lerp :: "js_arg \<Rightarrow> js_arg \<Rightarrow> number \<Rightarrow> error + js_arg" where
  "Math_lerp (ANumber a) (ANumber b) t =
     bindE (lerp_component (Num a) (Num b) t) (\<lambda>n. Inr (ANumber n))"
| "Math_lerp (ARenderable a) (ARenderable b) t =
     (let Type = (if dimensions a > dimensions b then constructor_of a
                  else constructor_of b)
      in bindE
           (mapE (\<lambda>i. bindE (or_default (array_get (values a) i) i) (\<lambda>ai.
                       bindE (or_default (array_get (values b) i) i) (\<lambda>bi.
                       bindE (lerp_component ai bi t) (\<lambda>n. Inr (Num n)))))
                 [0..<dimensions a])
           (\<lambda>vs. Inr (ARenderable (construct Type vs))))"
| "Math_lerp _ _ t = Inl (Error ''Invalid arguments for Math.lerp'')"

text \<open>
  \<open>Math.clamp\<close> called on component values: the third argument is \<open>max.values[i]\<close>
  as it is, with no default.
\<close>

fun clamp_component :: "jsval \<Rightarrow> jsval \<Rightarrow> jsval \<Rightarrow> error + number" where
  "clamp_component (Num x) (Num mn) (Num mx) = Inr (Math_min (Math_max x mn) mx)"
| "clamp_component _ _ _ = Inl (Error ''Invalid arguments for Math.clamp'')"

fun Math_clamp :: "js_arg \<Rightarrow> js_arg \<Rightarrow> js_arg \<Rightarrow> error + js_arg" where
  "Math_clamp (ANumber x) (ANumber mn) (ANumber mx) =
     bindE (clamp_component (Num x) (Num mn) (Num mx)) (\<lambda>n. Inr (ANumber n))"
| "Math_clamp (ARenderable x) (ARenderable mn) (ARenderable mx) =
     (let Type = (if dimensions x > dimensions mn then constructor_of x
                  else constructor_of mn)
      in bindE
           (mapE (\<lambda>i. bindE (or_default (array_get (values x) i) i) (\<lambda>xi.
                       bindE (or_default (array_get (values mn) i) i) (\<lambda>mi.
                       bindE (clamp_component xi mi (array_get (values mx) i))
                             (\<lambda>n. Inr (Num n)))))
                 [0..<dimensions x])
           (\<lambda>vs. Inr (ARenderable (construct Type vs))))"
| "Math_clamp _ _ _ = Inl (Error ''Invalid arguments for Math.clamp'')"

definition Math_radialGradientExponential ::
  "renderable \<Rightarrow> renderable \<Rightarrow> renderable \<Rightarrow> renderable \<Rightarrow> error + renderable" where
  "Math_radialGradientExponential uv centerPosition radius density =
     bindE (distance uv centerPosition) (\<lambda>d.
     bindE (red d) (\<lambda>dist.
     bindE (red density) (\<lambda>dens.
       Inr (Scalar (Num (Math_exp (js_mul (js_neg (to_number dist)) (to_number dens))))))))"

text \<open>
  Modelled from the spec: the body of \<open>Math.remap\<close>. HLSL.ts declares the function and
  documents it ("The value to remap. This value must be between iMin and iMax", "throws if
  v is not between iMin and iMax") but holds no assignment to it. The definition is the
  linear map that sends \<open>iMin\<close> to \<open>oMin\<close> and \<open>iMax\<close> to \<open>oMax\<close>, and the failure the
  specification lists as a RangeError.
\<close>

definition Math_remap ::
  "number \<Rightarrow> number \<Rightarrow> number \<Rightarrow> number \<Rightarrow> number \<Rightarrow> error + number" where
  "Math_remap iMin iMax oMin oMax v =
     (if js_le iMin v \<and> js_le v iMax
      then Inr (js_add oMin
                  (js_div (js_mul (js_sub v iMin) (js_sub oMax oMin)) (js_sub iMax iMin)))
      else Inl RangeError)"

section \<open>The logger (src/utils/Logger.ts)\<close>

fun join :: "string \<Rightarrow> string list \<Rightarrow> string" where
  "join sep [] = []"
| "join sep [x] = x"
| "join sep (x # y # ys) = x @ sep @ join sep (y # ys)"

record Logger =
  logs :: "string list"

definition Logger_new :: Logger where
  "Logger_new = \<lparr>logs = []\<rparr>"

definition Logger_log :: "string list \<Rightarrow> Logger \<Rightarrow> Logger" where
  "Logger_log message l = l\<lparr>logs := logs l @ [join '' '' message]\<rparr>"

definition Logger_warn :: "string list \<Rightarrow> Logger \<Rightarrow> Logger" where
  "Logger_warn message l = l\<lparr>logs := logs l @ [''WARNING: '' @ join '' '' message]\<rparr>"

definition Logger_error :: "string list \<Rightarrow> Logger \<Rightarrow> Logger" where
  "Logger_error message l = l\<lparr>logs := logs l @ [''ERROR: '' @ join '' '' message]\<rparr>"

definition Logger_toString :: "Logger \<Rightarrow> string" where
  "Logger_toString l = join [CHR 0x0A] (logs l)"

section \<open>The render pass (src/components/Canvas.tsx)\<close>

definition renderSize :: nat where
  "renderSize = 512"

text \<open>
  The canvas element with its 2D context: the size attributes, whether \<open>getContext("2d")\<close>
  gives a context, which strings the context's colour parser accepts, the current fill
  style and the pixel buffer (\<open>None\<close> is a cleared pixel). The parser belongs to the
  browser, so it is a field of the context rather than a definition.
\<close>

record canvas =
  width :: nat
  height :: nat
  context2d :: bool
  parses :: "string \<Rightarrow> bool"
  fillStyle :: string
  pixels :: "nat \<times> nat \<Rightarrow> string option"

text \<open>The assignment \<open>context.fillStyle = style\<close>: a string that does not parse as a
  colour is ignored and the style in force stays.\<close>

definition set_fillStyle :: "string \<Rightarrow> canvas \<Rightarrow> canvas" where
  "set_fillStyle style c = (if parses c style then c\<lparr>fillStyle := style\<rparr> else c)"

definition in_rect :: "nat \<Rightarrow> nat \<Rightarrow> nat \<Rightarrow> nat \<Rightarrow> nat \<times> nat \<Rightarrow> bool" where
  "in_rect x y w h p = (x \<le> fst p \<and> fst p < x + w \<and> y \<le> snd p \<and> snd p < y + h)"

definition clearRect :: "nat \<Rightarrow> nat \<Rightarrow> nat \<Rightarrow> nat \<Rightarrow> canvas \<Rightarrow> canvas" where
  "clearRect x y w h c = c\<lparr>pixels := (\<lambda>p. if in_rect x y w h p then None else pixels c p)\<rparr>"

definition fillRect :: "nat \<Rightarrow> nat \<Rightarrow> nat \<Rightarrow> nat \<Rightarrow> canvas \<Rightarrow> canvas" where
  "fillRect x y w h c =
     c\<lparr>pixels := (\<lambda>p. if in_rect x y w h p then Some (fillStyle c) else pixels c p)\<rparr>"

text \<open>
  What a \<open>catch\<close> clause of the pass receives: whether the thrown object has a
  \<open>message\<close> property (and its text) and whether it has \<open>toString\<close> (and what that
  returns).
\<close>

datatype thrown = Thrown (message: "string option") (toString: "string option")

text \<open>
  The compiled function followed by \<open>.render()\<close> on what it returns: for a texture
  coordinate, the colour string or the value thrown on the way.
\<close>

type_synonym RenferFunction = "renderable \<Rightarrow> thrown + string"

text \<open>The two library calls of the compile step, \<open>transpile\<close> and \<open>new Function\<close>.\<close>

record host =
  transpile :: "string \<Rightarrow> thrown + string"
  new_Function :: "string \<Rightarrow> thrown + RenferFunction"

text \<open>
  What a pass reads and changes: the canvas behind \<open>canvasRef\<close>, the strings handed to
  \<open>setOutput\<close> so far, and (for stating what was evaluated) the texture coordinates at
  which the render function has been called.
\<close>

record world =
  canvasRef :: "canvas option"
  outputs :: "string list"
  evaluated :: "renderable list"

definition texCoord :: "nat \<Rightarrow> nat \<Rightarrow> renderable" where
  "texCoord x y =
     Vector2 (Num (js_div (Fin (real x)) (Fin (real renderSize))))
             (Num (js_div (Fin (real y)) (Fin (real renderSize))))"

text \<open>The body of the inner loop for the pixel \<open>(x, y)\<close>.\<close>

definition paint_pixel ::
  "RenferFunction \<Rightarrow> nat \<Rightarrow> nat \<Rightarrow> canvas \<times> renderable list \<Rightarrow> canvas \<times> renderable list" where
  "paint_pixel renderFunction x y st =
     (let c = fst st;
          c' = (case renderFunction (texCoord x y) of
                  Inr style \<Rightarrow> set_fillStyle style c
                | Inl e \<Rightarrow> set_fillStyle ''#000000'' c)
      in (fillRect x y 1 1 c', snd st @ [texCoord x y]))"

definition raster ::
  "RenferFunction \<Rightarrow> canvas \<times> renderable list \<Rightarrow> canvas \<times> renderable list" where
  "raster renderFunction st =
     fold (\<lambda>x. fold (\<lambda>y. paint_pixel renderFunction x y) [0..<renderSize])
          [0..<renderSize] st"

text \<open>
  The \<open>try\<close> block of the effect: the log it leaves and the world after it. The
  function \<open>renderFunction\<close> is first bound to, for any coordinate, an object rendering
  \<open>#000\<close>; that value is never called, since the \<open>catch\<close> clause of the compile step
  returns from the effect.
\<close>

definition effect_body :: "host \<Rightarrow> string \<Rightarrow> Logger \<Rightarrow> world \<Rightarrow> Logger \<times> world" where
  "effect_body h code log0 w =
     (case canvasRef w of
        None \<Rightarrow> (Logger_error [''No canvas''] log0, w)
      | Some canvas \<Rightarrow>
          if \<not> context2d canvas then (Logger_error [''No canvas context''] log0, w)
          else
            let log1 = Logger_log [''Compiling shader...''] log0
            in (case bindE (transpile h (code @ [CHR 0x0A] @ ''return main();''))
                           (new_Function h) of
                  Inl err \<Rightarrow>
                    (let log2 = Logger_error [''Shader compilation failed''] log1
                     in (case message err of
                           Some m \<Rightarrow> (Logger_error [m] log2, w)
                         | None \<Rightarrow>
                             (case toString err of
                                Some s \<Rightarrow> (Logger_error [s] log2, w)
                              | None \<Rightarrow> (log2, w))))
                | Inr renderFunction \<Rightarrow>
                    (let log2 = Logger_log [''Shader compiled successfully''] log1;
                         st = raster renderFunction
                                (clearRect 0 0 renderSize renderSize canvas, evaluated w);
                         log3 = Logger_log
                                  [''Rendered '' @ digit_string (width (fst st)) @ ''x''
                                     @ digit_string (height (fst st)) @ '' pixels'']
                                  log2
                     in (log3, w\<lparr>canvasRef := Some (fst st), evaluated := snd st\<rparr>))))"

text \<open>The effect with its \<open>finally\<close> clause: whatever the body did, the log is handed
  to \<open>setOutput\<close>.\<close>

definition useEffect :: "host \<Rightarrow> string \<Rightarrow> world \<Rightarrow> world" where
  "useEffect h code w =
     (let r = effect_body h code Logger_new w
      in (snd r)\<lparr>outputs := outputs (snd r) @ [Logger_toString (fst r)]\<rparr>)"


subsection \<open>Concrete sources and collaborators used in the examples below\<close>

text \<open>
  Four sources. The first is refused by \<open>new Function\<close> (a \<open>break\<close> outside a loop);
  the second throws at every pixel (\<open>Vector2.add\<close> of a Vector3); the third throws at
  the pixel \<open>(0, 0)\<close> only and returns \<open>Scalar(NaN)\<close> elsewhere; the fourth returns
  \<open>Vector3.red\<close> at \<open>(0, 0)\<close> and \<open>Scalar(NaN)\<close> elsewhere.
\<close>

definition src_break :: string where
  "src_break = ''function main() { break; }''"

definition src_throwing :: string where
  "src_throwing = ''function main() { return new Vector2(0, 0).add(Vector3.red) }''"

definition src_corner_throwing :: string where
  "src_corner_throwing =
     ''function main() { if (texCoord.red + texCoord.green === 0) ''
     @ ''return new Vector2(0, 0).add(Vector3.red); return new Scalar(NaN) }''"

definition src_corner_red :: string where
  "src_corner_red =
     ''function main() { if (texCoord.red + texCoord.green === 0) ''
     @ ''return Vector3.red; return new Scalar(NaN) }''"

text \<open>
  What these sources do once compiled and followed by \<open>render()\<close>: \<open>Vector3.red\<close>
  renders as \<open>rgb(255, 0, 0)\<close>, and \<open>Scalar(NaN)\<close> as \<open>rgb(NaN, NaN, NaN)\<close>, since
  \<open>Math.min(Math.max(NaN, 0), 1) * 255\<close> is \<open>NaN\<close> and \<open>render\<close> does not throw.
\<close>

definition add_error :: thrown where
  "add_error = Thrown (Some ''Invalid arguments for Vector2.add'')
                      (Some ''Error: Invalid arguments for Vector2.add'')"

definition throwing_shader :: RenferFunction where
  "throwing_shader uv = Inl add_error"

definition corner_throwing_shader :: RenferFunction where
  "corner_throwing_shader uv =
     (if uv = texCoord 0 0 then Inl add_error else Inr ''rgb(NaN, NaN, NaN)'')"

definition corner_red_shader :: RenferFunction where
  "corner_red_shader uv =
     (if uv = texCoord 0 0 then Inr ''rgb(255, 0, 0)'' else Inr ''rgb(NaN, NaN, NaN)'')"

text \<open>A \<open>transpile\<close> that hands plain JavaScript on as it is, and a \<open>new Function\<close>
  that knows the four sources above (any other text it reports as a syntax error).\<close>

definition plain_transpile :: "string \<Rightarrow> thrown + string" where
  "plain_transpile src = Inr src"

definition sample_Function :: "string \<Rightarrow> thrown + RenferFunction" where
  "sample_Function src =
     (if src = src_break @ [CHR 0x0A] @ ''return main();''
      then Inl (Thrown (Some ''Illegal break statement'')
                       (Some ''SyntaxError: Illegal break statement''))
      else if src = src_throwing @ [CHR 0x0A] @ ''return main();''
      then Inr throwing_shader
      else if src = src_corner_throwing @ [CHR 0x0A] @ ''return main();''
      then Inr corner_throwing_shader
      else if src = src_corner_red @ [CHR 0x0A] @ ''return main();''
      then Inr corner_red_shader
      else Inl (Thrown (Some ''Unexpected token'') (Some ''SyntaxError: Unexpected token'')))"

definition sample_host :: host where
  "sample_host = \<lparr>transpile = plain_transpile, new_Function = sample_Function\<rparr>"

text \<open>A colour parser restricted to the strings the examples assign: it takes
  \<open>#000000\<close> and \<open>rgb(255, 0, 0)\<close> and refuses \<open>rgb(NaN, NaN, NaN)\<close>.\<close>

definition sample_parses :: "string \<Rightarrow> bool" where
  "sample_parses style = (style = ''#000000'' \<or> style = ''rgb(255, 0, 0)'')"

definition no_pixels :: "nat \<times> nat \<Rightarrow> string option" where
  "no_pixels p = None"

definition blank_canvas :: canvas where
  "blank_canvas =
     \<lparr>width = renderSize, height = renderSize, context2d = True, parses = sample_parses,
      fillStyle = ''#000000'', pixels = no_pixels\<rparr>"

definition mounted :: world where
  "mounted = \<lparr>canvasRef = Some blank_canvas, outputs = [], evaluated = []\<rparr>"

definition unmounted :: world where
  "unmounted = \<lparr>canvasRef = None, outputs = [], evaluated = []\<rparr>"


section \<open>Properties of the pixel loops\<close>


















lemma effect_body_failed:
  assumes "canvasRef w = Some c" and "context2d c"
    and "bindE (transpile h (code @ [CHR 0x0A] @ ''return main();'')) (new_Function h) = Inl err"
  shows "effect_body h code Logger_new w =
     (\<lparr>logs = [''Compiling shader...'', ''ERROR: Shader compilation failed'']
          @ (case message err of
               Some m \<Rightarrow> [''ERROR: '' @ m]
             | None \<Rightarrow> (case toString err of Some s \<Rightarrow> [''ERROR: '' @ s] | None \<Rightarrow> []))\<rparr>,
      w)"
  using assms
  by (simp add: effect_body_def Logger_new_def Logger_log_def Logger_error_def Let_def
        split: option.splits)

lemma outputs_effect_body: "outputs (snd (effect_body h code l w)) = outputs w"
  by (simp add: effect_body_def Let_def split: option.splits sum.splits)

text \<open>What the sample host makes of the four sources.\<close>

lemma compile_src_break:
  "bindE (transpile sample_host (src_break @ [CHR 0x0A] @ ''return main();''))
         (new_Function sample_host)
     = Inl (Thrown (Some ''Illegal break statement'')
                   (Some ''SyntaxError: Illegal break statement''))"
  by (simp add: sample_host_def plain_transpile_def sample_Function_def bindE_def)




lemma mounted_canvas:
  "canvasRef mounted = Some blank_canvas" "context2d blank_canvas"
  "parses blank_canvas = sample_parses" "outputs mounted = []" "evaluated mounted = []"
  "fillStyle blank_canvas = ''#000000''"
  by (simp_all add: mounted_def blank_canvas_def)


section \<open>Division by a zero component\<close>

text \<open>
  Claim C1 (division by a zero component gives 0 in that component, for Scalar, Vector2 and
  Vector3 alike; \<open>Vector2(1,2).divide(Vector2(0,4))\<close> is \<open>Vector2(0,0.5)\<close>).
  \<open>Scalar.divide\<close> tests each divisor component against 0 and stores 0; \<open>Vector2.divide\<close>
  and \<open>Vector3.divide\<close> divide without the test. At the input the specification gives, the
  first component of the result is \<open>Infinity\<close>, while the scalar method at the same divisor
  stores 0.
\<close>

theorem Vector2_divide_zero_component:
  "divide (Vector2 (Num (Fin 1)) (Num (Fin 2))) (Vector2 (Num (Fin 0)) (Num (Fin 4)))
     = Inr (Vector2 (Num PInf) (Num (Fin (1 / 2))))
   \<and> divide (Vector3 (Num (Fin 0)) (Num (Fin 2)) (Num (Fin 3))) (Scalar (Num (Fin 0)))
     = Inr (Vector3 (Num NaN) (Num PInf) (Num PInf))
   \<and> divide (Scalar (Num (Fin 1))) (Vector2 (Num (Fin 0)) (Num (Fin 4)))
     = Inr (Vector2 (Num (Fin 0)) (Num (Fin (1 / 4))))"
  by (simp add: Vector2_divide_def Vector3_divide_def new_Vector2_def new_Vector3_def
        lift2_def bindE_def op_div_def array_get_def Scalar_divide_def upt_rec)

section \<open>Channel getters\<close>

text \<open>
  Claim C2, as amended: on a Scalar the getters red, green and blue all return the one
  stored component (a scalar is a grey level), on a Vector2 red and green return the stored
  components and blue returns the default 0, on a Vector3 red, green and blue return the
  stored components, and alpha returns the default 1 on all three classes. No getter throws.
\<close>

theorem channel_getters:
  "red (Scalar s) = Inr s \<and> green (Scalar s) = Inr s \<and> blue (Scalar s) = Inr s
   \<and> alpha (Scalar s) = Inr (Num (Fin 1))
   \<and> red (Vector2 x y) = Inr x \<and> green (Vector2 x y) = Inr y
   \<and> blue (Vector2 x y) = Inr (Num (Fin 0)) \<and> alpha (Vector2 x y) = Inr (Num (Fin 1))
   \<and> red (Vector3 x y z) = Inr x \<and> green (Vector3 x y z) = Inr y
   \<and> blue (Vector3 x y z) = Inr z \<and> alpha (Vector3 x y z) = Inr (Num (Fin 1))"
  by (simp add: array_get_def defaultValueFor_def bindE_def)

text \<open>The getters at \<open>Scalar(0.5)\<close>, \<open>Vector2(0.25, 0.75)\<close> and
  \<open>Vector3(0.25, 0.75, 0.5)\<close>.\<close>

theorem channel_getters_witness:
  "green (Scalar (Num (Fin (1 / 2)))) = Inr (Num (Fin (1 / 2)))
   \<and> blue (Scalar (Num (Fin (1 / 2)))) = Inr (Num (Fin (1 / 2)))
   \<and> blue (Vector2 (Num (Fin (1 / 4))) (Num (Fin (3 / 4)))) = Inr (Num (Fin 0))
   \<and> alpha (Vector3 (Num (Fin (1 / 4))) (Num (Fin (3 / 4))) (Num (Fin (1 / 2))))
       = Inr (Num (Fin 1))"
  using channel_getters [of "Num (Fin (1 / 2))" "Num (Fin (1 / 4))" "Num (Fin (3 / 4))"
      "Num (Fin (1 / 2))"]
  by simp

text \<open>Claim C2 as it is written says that \<open>Scalar.green\<close> and \<open>Scalar.blue\<close> return 0;
  on \<open>Scalar(0.5)\<close> they return 0.5.\<close>

theorem Scalar_green_blue_counterexample:
  "green (Scalar (Num (Fin (1 / 2)))) \<noteq> Inr (Num (Fin 0))
   \<and> blue (Scalar (Num (Fin (1 / 2)))) \<noteq> Inr (Num (Fin 0))"
  by (simp add: array_get_def)

section \<open>Interpolation and clamping of renderables\<close>

text \<open>
  Claim C3 (the result of \<open>Math.lerp\<close> has the larger dimension and every component is the
  interpolation of the operands' components, defaults filling the narrower one, also when
  the second operand is the wider). The loop of \<open>Math.lerp\<close> runs over the dimensions of
  the first operand only, while the constructor is that of the wider one: a Scalar
  interpolated toward a Vector3 gives a Vector3 whose green and blue slots are
  \<open>undefined\<close>. With the operands exchanged all three components are computed.
\<close>

theorem Math_lerp_wider_second_operand:
  "Math_lerp (ARenderable (Scalar (Num (Fin 0))))
             (ARenderable (Vector3 (Num (Fin 1)) (Num (Fin 1)) (Num (Fin 1)))) (Fin (1 / 2))
     = Inr (ARenderable (Vector3 (Num (Fin (1 / 2))) Undefined Undefined))
   \<and> Math_lerp (ARenderable (Vector3 (Num (Fin 1)) (Num (Fin 1)) (Num (Fin 1))))
               (ARenderable (Scalar (Num (Fin 0)))) (Fin (1 / 2))
     = Inr (ARenderable (Vector3 (Num (Fin (1 / 2))) (Num (Fin (1 / 2))) (Num (Fin (1 / 2)))))"
  by (simp add: bindE_def or_default_def array_get_def js_sub_def upt_rec
        defaultValueFor_def)

text \<open>
  Claim C7 (\<open>Math.clamp\<close> succeeds on same-dimension and on broadcastable inputs, with the
  dimension of the wider of \<open>x\<close> and \<open>min\<close> and every component inside its bounds).
  \<open>Math.clamp\<close> fills missing components of \<open>x\<close> and of \<open>min\<close> with the default but
  passes \<open>max.values[i]\<close> on as it is: clamping a Vector3 between two Scalars throws at
  the second component. When \<open>min\<close> is wider than \<open>x\<close> the loop stops at the dimension of
  \<open>x\<close> and leaves slots \<open>undefined\<close>. On three Vector3 operands every component is
  clamped.
\<close>

theorem Math_clamp_narrower_bounds:
  "Math_clamp (ARenderable (Vector3 (Num (Fin (1 / 2))) (Num (Fin (1 / 2))) (Num (Fin (1 / 2)))))
              (ARenderable (Scalar (Num (Fin 0)))) (ARenderable (Scalar (Num (Fin 1))))
     = Inl (Error ''Invalid arguments for Math.clamp'')
   \<and> Math_clamp (ARenderable (Scalar (Num (Fin 2))))
                (ARenderable (Vector3 (Num (Fin 0)) (Num (Fin 0)) (Num (Fin 0))))
                (ARenderable (Vector3 (Num (Fin 1)) (Num (Fin 1)) (Num (Fin 1))))
     = Inr (ARenderable (Vector3 (Num (Fin 1)) Undefined Undefined))
   \<and> Math_clamp (ARenderable (Vector3 (Num (Fin 2)) (Num (Fin (1 / 2))) (Num (Fin (- 1)))))
                (ARenderable (Vector3 (Num (Fin 0)) (Num (Fin 0)) (Num (Fin 0))))
                (ARenderable (Vector3 (Num (Fin 1)) (Num (Fin 1)) (Num (Fin 1))))
     = Inr (ARenderable (Vector3 (Num (Fin 1)) (Num (Fin (1 / 2))) (Num (Fin 0))))"
  by (simp add: bindE_def or_default_def array_get_def upt_rec defaultValueFor_def)

section \<open>Radial gradient and remap\<close>

text \<open>
  Claim C9, as amended: for Vector2 arguments \<open>uv\<close> and \<open>center\<close> and Scalar arguments
  \<open>radius\<close> and \<open>density\<close>, \<open>Math.radialGradientExponential\<close> returns the Scalar
  \<open>exp(-distance(uv, center) * density.red)\<close>, the distance being the Euclidean one; the
  result is the same for any two radii; and when \<open>uv\<close> and \<open>center\<close> are the same point
  with finite coordinates the result is \<open>Scalar(1)\<close> for every radius and every finite
  density.
\<close>

theorem radialGradientExponential_value:
  "Math_radialGradientExponential (Vector2 ux uy) (Vector2 cx cy) (Scalar r) (Scalar d)
     = Inr (Scalar (Num (Math_exp (js_mul
         (js_neg (Math_sqrt (js_add (Math_pow2 (js_sub (to_number ux) (to_number cx)))
                                    (Math_pow2 (js_sub (to_number uy) (to_number cy))))))
         (to_number d)))))
   \<and> distance (Vector2 ux uy) (Vector2 cx cy)
     = Inr (Scalar (Num (Math_sqrt (js_add (Math_pow2 (js_sub (to_number ux) (to_number cx)))
                                          (Math_pow2 (js_sub (to_number uy) (to_number cy)))))))
   \<and> Math_radialGradientExponential (Vector2 ux uy) (Vector2 cx cy) (Scalar r') (Scalar d)
     = Math_radialGradientExponential (Vector2 ux uy) (Vector2 cx cy) (Scalar r) (Scalar d)
   \<and> Math_radialGradientExponential (Vector2 (Num (Fin a)) (Num (Fin b)))
        (Vector2 (Num (Fin a)) (Num (Fin b))) (Scalar r) (Scalar (Num (Fin k)))
     = Inr (Scalar (Num (Fin 1)))"
  by (simp add: Math_radialGradientExponential_def Vector2_distance_def lift2_def bindE_def
        op_sub_def array_get_def js_sub_def)

text \<open>
  At the centre \<open>(0.5, 0.5)\<close> with density 2 the value is 1 for the radii 1 and 5. From
  \<open>(0, 0)\<close> to the centre \<open>(3, 4)\<close> the distance is 5, the value with density 2 is
  \<open>exp(-10)\<close>, below 1, and the value with density \<open>Infinity\<close> is 0.
\<close>

theorem radialGradientExponential_witness:
  "Math_radialGradientExponential (Vector2 (Num (Fin (1 / 2))) (Num (Fin (1 / 2))))
      (Vector2 (Num (Fin (1 / 2))) (Num (Fin (1 / 2)))) (Scalar (Num (Fin 1)))
      (Scalar (Num (Fin 2)))
     = Inr (Scalar (Num (Fin 1)))
   \<and> Math_radialGradientExponential (Vector2 (Num (Fin (1 / 2))) (Num (Fin (1 / 2))))
      (Vector2 (Num (Fin (1 / 2))) (Num (Fin (1 / 2)))) (Scalar (Num (Fin 5)))
      (Scalar (Num (Fin 2)))
     = Inr (Scalar (Num (Fin 1)))
   \<and> distance (Vector2 (Num (Fin 0)) (Num (Fin 0))) (Vector2 (Num (Fin 3)) (Num (Fin 4)))
     = Inr (Scalar (Num (Fin 5)))
   \<and> Math_radialGradientExponential (Vector2 (Num (Fin 0)) (Num (Fin 0)))
      (Vector2 (Num (Fin 3)) (Num (Fin 4))) (Scalar (Num (Fin 1))) (Scalar (Num (Fin 2)))
     = Inr (Scalar (Num (Fin (exp (- 10)))))
   \<and> exp (- 10 :: real) < 1
   \<and> Math_radialGradientExponential (Vector2 (Num (Fin 0)) (Num (Fin 0)))
      (Vector2 (Num (Fin 3)) (Num (Fin 4))) (Scalar (Num (Fin 1))) (Scalar (Num PInf))
     = Inr (Scalar (Num (Fin 0)))"
proof -
  have s: "sqrt 25 = (5 :: real)"
    using real_sqrt_abs [of "5 :: real"] by simp
  show ?thesis
    using radialGradientExponential_value [of "Num (Fin (1 / 2))" "Num (Fin (1 / 2))"
        "Num (Fin (1 / 2))" "Num (Fin (1 / 2))" "Num (Fin 1)" "Num (Fin 2)" "Num (Fin 5)"
        "1 / 2" "1 / 2" 2]
      radialGradientExponential_value [of "Num (Fin 0)" "Num (Fin 0)" "Num (Fin 3)"
        "Num (Fin 4)" "Num (Fin 1)" "Num (Fin 2)" "Num (Fin 1)" 0 0 0]
      radialGradientExponential_value [of "Num (Fin 0)" "Num (Fin 0)" "Num (Fin 3)"
        "Num (Fin 4)" "Num (Fin 1)" "Num PInf" "Num (Fin 1)" 0 0 0]
    by (simp add: js_sub_def s)
qed

text \<open>Claim C9 as it is written says that at \<open>uv = center\<close> the result is \<open>Scalar(1)\<close>
  for every density; with the density \<open>Infinity\<close> the product \<open>-0 * Infinity\<close> is
  \<open>NaN\<close> and so is the result.\<close>

theorem radialGradientExponential_density_counterexample:
  "Math_radialGradientExponential (Vector2 (Num (Fin (1 / 2))) (Num (Fin (1 / 2))))
      (Vector2 (Num (Fin (1 / 2))) (Num (Fin (1 / 2)))) (Scalar (Num (Fin 1)))
      (Scalar (Num PInf))
     = Inr (Scalar (Num NaN))
   \<and> Math_radialGradientExponential (Vector2 (Num (Fin (1 / 2))) (Num (Fin (1 / 2))))
      (Vector2 (Num (Fin (1 / 2))) (Num (Fin (1 / 2)))) (Scalar (Num (Fin 1)))
      (Scalar (Num PInf))
     \<noteq> Inr (Scalar (Num (Fin 1)))"
  by (simp add: Math_radialGradientExponential_def Vector2_distance_def lift2_def bindE_def
        op_sub_def array_get_def js_sub_def)

text \<open>
  Claim C6: for finite numbers with \<open>iMin < iMax\<close>, \<open>Math.remap\<close> returns
  \<open>oMin + (v - iMin) * (oMax - oMin) / (iMax - iMin)\<close> when \<open>v\<close> lies in
  \<open>[iMin, iMax]\<close>; it fails, with a RangeError, exactly when \<open>v\<close> lies outside.
\<close>

theorem Math_remap_linear:
  assumes "iMin < iMax"
  shows "Math_remap (Fin iMin) (Fin iMax) (Fin oMin) (Fin oMax) (Fin v)
           = (if iMin \<le> v \<and> v \<le> iMax
              then Inr (Fin (oMin + (v - iMin) * (oMax - oMin) / (iMax - iMin)))
              else Inl RangeError)
         \<and> ((\<exists>e. Math_remap (Fin iMin) (Fin iMax) (Fin oMin) (Fin oMax) (Fin v) = Inl e)
              = (v < iMin \<or> iMax < v))"
  using assms by (auto simp add: Math_remap_def js_sub_def)

text \<open>Remapping from \<open>[0, 10]\<close> to \<open>[100, 200]\<close>: 5 goes to 150, and 11 is refused.\<close>

theorem Math_remap_witness:
  "(0::real) < 10
   \<and> Math_remap (Fin 0) (Fin 10) (Fin 100) (Fin 200) (Fin 5) = Inr (Fin 150)
   \<and> Math_remap (Fin 0) (Fin 10) (Fin 100) (Fin 200) (Fin 11) = Inl RangeError"
proof -
  have h: "(0::real) < 10" by simp
  show ?thesis
    using h Math_remap_linear [OF h, of 100 200 5] Math_remap_linear [OF h, of 100 200 11]
    by simp
qed

section \<open>Scalar arithmetic with any operand\<close>

text \<open>
  Claim C10: for a Scalar \<open>s\<close> and an operand \<open>v\<close> of any of the three classes, the
  methods multiply, add, subtract and divide of \<open>s\<close> return (they have no throwing
  branch) a value of the class of \<open>v\<close> whose \<open>i\<close>-th component is \<open>s * v\<^sub>i\<close>,
  \<open>s + v\<^sub>i\<close>, \<open>s - v\<^sub>i\<close> and, for divide, 0 when \<open>v\<^sub>i\<close> is 0 and \<open>s / v\<^sub>i\<close>
  otherwise.
\<close>

theorem Scalar_methods_broadcast:
  "constructor_of (Scalar_multiply (Scalar s) v) = constructor_of v
   \<and> constructor_of (Scalar_add (Scalar s) v) = constructor_of v
   \<and> constructor_of (Scalar_subtract (Scalar s) v) = constructor_of v
   \<and> constructor_of (Scalar_divide (Scalar s) v) = constructor_of v
   \<and> (\<forall>i<dimensions v.
        array_get (values (Scalar_multiply (Scalar s) v)) i = op_mul s (array_get (values v) i)
      \<and> array_get (values (Scalar_add (Scalar s) v)) i = op_add s (array_get (values v) i)
      \<and> array_get (values (Scalar_subtract (Scalar s) v)) i
          = op_sub s (array_get (values v) i)
      \<and> array_get (values (Scalar_divide (Scalar s) v)) i
          = (if array_get (values v) i = Num (Fin 0) then Num (Fin 0)
             else op_div s (array_get (values v) i)))"
  by (cases v)
     (auto simp add: Scalar_multiply_def Scalar_add_def Scalar_subtract_def Scalar_divide_def
        array_get_def upt_rec less_Suc_eq numeral_2_eq_2 numeral_3_eq_3)

text \<open>\<open>Scalar(6)\<close> with \<open>Vector2(0, 3)\<close>, at the second component: 18, 9, 3 and 2; the
  result is a Vector2.\<close>

theorem Scalar_methods_witness:
  "1 < dimensions (Vector2 (Num (Fin 0)) (Num (Fin 3)))
   \<and> constructor_of (Scalar_subtract (Scalar (Num (Fin 6))) (Vector2 (Num (Fin 0)) (Num (Fin 3))))
       = CVector2
   \<and> array_get (values (Scalar_multiply (Scalar (Num (Fin 6)))
        (Vector2 (Num (Fin 0)) (Num (Fin 3))))) 1 = Num (Fin 18)
   \<and> array_get (values (Scalar_add (Scalar (Num (Fin 6)))
        (Vector2 (Num (Fin 0)) (Num (Fin 3))))) 1 = Num (Fin 9)
   \<and> array_get (values (Scalar_subtract (Scalar (Num (Fin 6)))
        (Vector2 (Num (Fin 0)) (Num (Fin 3))))) 1 = Num (Fin 3)
   \<and> array_get (values (Scalar_divide (Scalar (Num (Fin 6)))
        (Vector2 (Num (Fin 0)) (Num (Fin 3))))) 1 = Num (Fin 2)"
  using Scalar_methods_broadcast [of "Num (Fin 6)" "Vector2 (Num (Fin 0)) (Num (Fin 3))"]
  by (simp add: op_mul_def op_add_def op_sub_def op_div_def js_sub_def array_get_def)

section \<open>The render pass\<close>

text \<open>
  Claim C4, as amended: when a canvas and its context are there and building the render
  function throws, the pass calls the render function at no pixel, leaves the canvas as it
  was, and hands to \<open>setOutput\<close> the line \<open>Compiling shader...\<close> followed by the
  line \<open>ERROR: Shader compilation failed\<close> and, when the thrown object has a message (or,
  failing that, a \<open>toString\<close>), one more \<open>ERROR:\<close> line with it; nothing else.
\<close>

theorem compile_failure_pass:
  assumes "canvasRef w = Some c" and "context2d c"
    and "bindE (transpile h (code @ [CHR 0x0A] @ ''return main();'')) (new_Function h) = Inl err"
  shows "evaluated (useEffect h code w) = evaluated w
         \<and> canvasRef (useEffect h code w) = canvasRef w
         \<and> outputs (useEffect h code w) = outputs w @
             [join [CHR 0x0A]
               ([''Compiling shader...'', ''ERROR: Shader compilation failed'']
                 @ (case message err of
                      Some m \<Rightarrow> [''ERROR: '' @ m]
                    | None \<Rightarrow> (case toString err of
                                 Some s \<Rightarrow> [''ERROR: '' @ s] | None \<Rightarrow> [])))]"
  by (simp add: useEffect_def effect_body_failed [OF assms] Logger_toString_def Let_def)

text \<open>The source \<open>function main() { break; }\<close>, which \<open>new Function\<close> refuses with
  the message \<open>Illegal break statement\<close>, on a blank canvas.\<close>

theorem compile_failure_pass_witness:
  "canvasRef mounted = Some blank_canvas \<and> context2d blank_canvas
   \<and> bindE (transpile sample_host (src_break @ [CHR 0x0A] @ ''return main();''))
            (new_Function sample_host)
       = Inl (Thrown (Some ''Illegal break statement'')
                     (Some ''SyntaxError: Illegal break statement''))
   \<and> evaluated (useEffect sample_host src_break mounted) = []
   \<and> canvasRef (useEffect sample_host src_break mounted) = Some blank_canvas
   \<and> outputs (useEffect sample_host src_break mounted)
       = [''Compiling shader...'' @ [CHR 0x0A] @ ''ERROR: Shader compilation failed''
            @ [CHR 0x0A] @ ''ERROR: Illegal break statement'']"
  using mounted_canvas(1,2) compile_src_break
    compile_failure_pass [OF mounted_canvas(1,2) compile_src_break]
  by (simp add: mounted_canvas)

text \<open>Claim C4 as it is written says that the log holds the compile-error lines and nothing
  else; the log of the same failing pass starts with the information line
  \<open>Compiling shader...\<close>.\<close>

theorem compile_failure_log_counterexample:
  "outputs (useEffect sample_host src_break mounted)
     \<noteq> [''ERROR: Shader compilation failed'' @ [CHR 0x0A]
          @ ''ERROR: Illegal break statement'']
   \<and> outputs (useEffect sample_host src_break mounted)
     = [''Compiling shader...'' @ [CHR 0x0A] @ ''ERROR: Shader compilation failed''
          @ [CHR 0x0A] @ ''ERROR: Illegal break statement'']"
proof -
  have "effect_body sample_host src_break Logger_new mounted
          = (\<lparr>logs = [''Compiling shader...'', ''ERROR: Shader compilation failed'',
                      ''ERROR: Illegal break statement'']\<rparr>, mounted)"
    using effect_body_failed [OF mounted_canvas(1,2) compile_src_break] by simp
  then show ?thesis
    by (simp add: useEffect_def Logger_toString_def mounted_canvas)
qed




text \<open>
  Claim C8: on every pass, whichever way the \<open>try\<close> block ends (no canvas, no context,
  compile failure, completed raster), \<open>setOutput\<close> is called exactly once, after the
  block, with the joined lines of the log the block left.
\<close>

theorem log_flushed_once:
  "outputs (useEffect h code w)
     = outputs w @ [Logger_toString (fst (effect_body h code Logger_new w))]
   \<and> length (outputs (useEffect h code w)) = Suc (length (outputs w))"
  by (simp add: useEffect_def Let_def outputs_effect_body)

text \<open>A pass with no canvas mounted: one call of \<open>setOutput\<close>, with
  \<open>ERROR: No canvas\<close>.\<close>

theorem log_flushed_once_witness:
  "outputs (useEffect sample_host src_break unmounted) = [''ERROR: No canvas'']
   \<and> length (outputs (useEffect sample_host src_break unmounted)) = Suc 0"
  using log_flushed_once [of sample_host src_break unmounted]
  by (simp add: effect_body_def unmounted_def Logger_new_def Logger_error_def
        Logger_toString_def)

end
